theory Spec2Isabelle
  imports Main
begin

section \<open>Bulk upsert of Django objects: \<^verbatim>\<open>djangobulk/bulk.py\<close>\<close>

text \<open>
  The module has three functions: \<^verbatim>\<open>_model_fields\<close>, \<^verbatim>\<open>_prep_values\<close> and
  \<^verbatim>\<open>insert_or_update_many\<close>. The last one derives the column metadata of a model,
  builds one parameterised statement by string formatting, and hands it to a cursor.
  Everything the module takes from Django is data of the caller here: a field is a record
  of its attributes and methods, the connection registry is a function from aliases to
  connections, and what the function does to a connection is the list of calls it makes.
  Calls into Django (\<^verbatim>\<open>connections[using]\<close>, \<^verbatim>\<open>quote_name\<close>, \<^verbatim>\<open>db_type\<close>,
  \<^verbatim>\<open>pre_save\<close>, \<^verbatim>\<open>get_db_prep_save\<close>, \<^verbatim>\<open>cursor\<close>, \<^verbatim>\<open>execute\<close>,
  \<^verbatim>\<open>commit_unless_managed\<close>) are taken to return; what the database does with the
  statement is not part of the module.
\<close>

subsection \<open>Python's string formatting operator\<close>

text \<open>
  The statement is built with \<^verbatim>\<open>format % values\<close>. The directives the module uses are
  \<^verbatim>\<open>%%\<close>, \<^verbatim>\<open>%s\<close> and \<^verbatim>\<open>%(key)s\<close>; the scanner below reads a format
  string left to right as CPython does, and raises what CPython raises on a missing key,
  a missing argument, a left-over argument or a truncated directive. A directive outside
  these three, and the \<^verbatim>\<open>str()\<close> of a value that is not a string, are \<open>NotModelled\<close>.
\<close>

datatype pyval = Str string | Other

datatype fmt_args = Positional "pyval list" | Mapping "(string \<times> pyval) list"

datatype error = AssertionError string | KeyError string | TypeError string
  | ValueError string | NotModelled

datatype scan = Lit | Pct | Key nat string | Conv pyval

definition prepend :: "string \<Rightarrow> error + string \<Rightarrow> error + string" where
  "prepend s r = (case r of Inl e \<Rightarrow> Inl e | Inr t \<Rightarrow> Inr (s @ t))"

fun format_from :: "fmt_args \<Rightarrow> scan \<Rightarrow> string \<Rightarrow> error + string" where
  "format_from args Lit [] =
     (case args of
        Positional (v # vs) \<Rightarrow>
          Inl (TypeError ''not all arguments converted during string formatting'')
      | _ \<Rightarrow> Inr [])"
| "format_from args Lit (c # cs) =
     (if c = CHR ''%'' then format_from args Pct cs
      else prepend [c] (format_from args Lit cs))"
| "format_from args Pct [] = Inl (ValueError ''incomplete format'')"
| "format_from args Pct (c # cs) =
     (if c = CHR ''%'' then prepend [c] (format_from args Lit cs)
      else if c = CHR ''('' then
        (case args of
           Mapping d \<Rightarrow> format_from args (Key 1 []) cs
         | Positional vs \<Rightarrow> Inl (TypeError ''format requires a mapping''))
      else if c = CHR ''s'' then
        (case args of
           Positional [] \<Rightarrow> Inl (TypeError ''not enough arguments for format string'')
         | Positional (Str s # vs) \<Rightarrow> prepend s (format_from (Positional vs) Lit cs)
         | Positional (Other # vs) \<Rightarrow> Inl NotModelled
         | Mapping d \<Rightarrow> Inl NotModelled)
      else Inl NotModelled)"
| "format_from args (Key n k) [] = Inl (ValueError ''incomplete format key'')"
| "format_from args (Key n k) (c # cs) =
     (if c = CHR '')'' then
        (if n = 1 then
           (case args of
              Mapping d \<Rightarrow>
                (case map_of d k of
                   None \<Rightarrow> Inl (KeyError k)
                 | Some v \<Rightarrow> format_from args (Conv v) cs)
            | Positional vs \<Rightarrow> Inl (TypeError ''format requires a mapping''))
         else format_from args (Key (n - 1) (k @ [c])) cs)
      else if c = CHR ''('' then format_from args (Key (n + 1) (k @ [c])) cs
      else format_from args (Key n (k @ [c])) cs)"
| "format_from args (Conv v) [] = Inl (ValueError ''incomplete format'')"
| "format_from args (Conv v) (c # cs) =
     (if c = CHR ''s'' then
        (case v of
           Str s \<Rightarrow> prepend s (format_from args Lit cs)
         | Other \<Rightarrow> Inl NotModelled)
      else Inl NotModelled)"

text \<open>\<^verbatim>\<open>fmt % args\<close>\<close>

definition str_mod :: "string \<Rightarrow> fmt_args \<Rightarrow> error + string" where
  "str_mod fmt args = format_from args Lit fmt"

text \<open>\<^verbatim>\<open>sep.join(xs)\<close>\<close>

fun join :: "string \<Rightarrow> string list \<Rightarrow> string" where
  "join sep [] = []"
| "join sep [x] = x"
| "join sep (x # y # ys) = x @ sep @ join sep (y # ys)"

text \<open>
  A generator expression whose body may raise: the items are computed left to right and
  the first exception ends the iteration.
\<close>

fun traverse :: "('a \<Rightarrow> error + 'b) \<Rightarrow> 'a list \<Rightarrow> error + 'b list" where
  "traverse g [] = Inr []"
| "traverse g (x # xs) =
     (case g x of
        Inl e \<Rightarrow> Inl e
      | Inr y \<Rightarrow> (case traverse g xs of Inl e \<Rightarrow> Inl e | Inr ys \<Rightarrow> Inr (y # ys)))"

subsection \<open>What the module reads from Django\<close>

text \<open>\<^verbatim>\<open>con.ops\<close> and \<^verbatim>\<open>connections[using]\<close>\<close>

record ops =
  quote_name :: "string \<Rightarrow> string"

record connection =
  ops :: ops

text \<open>
  A model field: \<open>is_AutoField f\<close> is \<^verbatim>\<open>isinstance(f, models.AutoField)\<close>; the
  type \<open>'o\<close> is that of the model's instances, \<open>'v\<close> of Python values, \<open>'p\<close> of the
  values handed to the database driver.
\<close>

record ('o, 'v, 'p) field =
  name :: string
  column :: string
  is_AutoField :: bool
  db_type :: "connection \<Rightarrow> string"
  pre_save :: "'o \<Rightarrow> bool \<Rightarrow> 'v"
  get_db_prep_save :: "'v \<Rightarrow> connection \<Rightarrow> 'p"

text \<open>\<^verbatim>\<open>model._meta\<close>\<close>

record ('o, 'v, 'p) options =
  db_table :: string
  meta_fields :: "('o, 'v, 'p) field list"
  pk :: "('o, 'v, 'p) field"

record ('o, 'v, 'p) model =
  meta :: "('o, 'v, 'p) options"

text \<open>
  The calls the function makes on the database layer, in order: \<open>Cursor u\<close> is
  \<^verbatim>\<open>connections[u].cursor()\<close>, \<open>Execute u sql ps\<close> is \<^verbatim>\<open>execute(sql, ps)\<close> on that
  cursor, and \<open>CommitUnlessManaged a\<close> is \<^verbatim>\<open>transaction.commit_unless_managed\<close> with the
  database alias it is given (\<open>None\<close> when the call passes none).
\<close>

datatype 'p event = Cursor string | Execute string string "'p list"
  | CommitUnlessManaged "string option"

subsection \<open>The module\<close>

definition model_fields :: "('o, 'v, 'p) model \<Rightarrow> ('o, 'v, 'p) field list" where
  "model_fields model = [f \<leftarrow> meta_fields (meta model). \<not> is_AutoField f]"

definition prep_values :: "('o, 'v, 'p) field list \<Rightarrow> 'o \<Rightarrow> connection \<Rightarrow> 'p list" where
  "prep_values fs obj con = map (\<lambda>f. get_db_prep_save f (pre_save f obj True) con) fs"

text \<open>\<^verbatim>\<open>keys or [model._meta.pk.name]\<close>: \<open>None\<close> and the empty list are both false.\<close>

definition keys_or_pk :: "string list option \<Rightarrow> ('o, 'v, 'p) model \<Rightarrow> string list" where
  "keys_or_pk keys model =
     (case keys of
        None \<Rightarrow> [name (pk (meta model))]
      | Some ks \<Rightarrow> if ks = [] then [name (pk (meta model))] else ks)"

definition all_field_names :: "('o, 'v, 'p) model \<Rightarrow> string list" where
  "all_field_names model = map name (model_fields model)"

definition all_col_names :: "connection \<Rightarrow> ('o, 'v, 'p) model \<Rightarrow> string" where
  "all_col_names con model =
     join '','' (map (\<lambda>f. quote_name (ops con) (column f)) (model_fields model))"

definition key_fields :: "('o, 'v, 'p) model \<Rightarrow> string list \<Rightarrow> ('o, 'v, 'p) field list" where
  "key_fields model keys =
     [f \<leftarrow> meta_fields (meta model). name f \<in> set keys \<and> name f \<in> set (all_field_names model)]"

definition key_col_names :: "connection \<Rightarrow> ('o, 'v, 'p) model \<Rightarrow> string list \<Rightarrow> string" where
  "key_col_names con model keys =
     join '','' (map (\<lambda>f. quote_name (ops con) (column f)) (key_fields model keys))"

definition update_fields ::
  "('o, 'v, 'p) model \<Rightarrow> string list \<Rightarrow> string list \<Rightarrow> ('o, 'v, 'p) field list" where
  "update_fields model keys skip_for_update =
     [f \<leftarrow> meta_fields (meta model).
        name f \<notin> set keys \<and> name f \<notin> set skip_for_update \<and> name f \<in> set (all_field_names model)]"

definition update_col_names ::
  "connection \<Rightarrow> ('o, 'v, 'p) model \<Rightarrow> string list \<Rightarrow> string list \<Rightarrow> string" where
  "update_col_names con model keys skip_for_update =
     join '','' (map (\<lambda>f. quote_name (ops con) (column f))
       (update_fields model keys skip_for_update))"

definition tuple_placeholder :: "connection \<Rightarrow> ('o, 'v, 'p) model \<Rightarrow> error + string" where
  "tuple_placeholder con model =
     (case traverse (\<lambda>f. str_mod ''%%s::%s'' (Positional [Str (db_type f con)]))
             (model_fields model) of
        Inl e \<Rightarrow> Inl e
      | Inr items \<Rightarrow> str_mod ''(%s)'' (Positional [Str (join '','' items)]))"

definition placeholders :: "string \<Rightarrow> 'o list \<Rightarrow> string" where
  "placeholders tp objects = join '','' (replicate (length objects) tp)"

definition parameters :: "connection \<Rightarrow> ('o, 'v, 'p) model \<Rightarrow> 'o list \<Rightarrow> 'p list" where
  "parameters con model objects =
     concat (map (\<lambda>obj. prep_values (model_fields model) obj con) objects)"

definition assignments :: "connection \<Rightarrow> ('o, 'v, 'p) field list \<Rightarrow> error + string" where
  "assignments con ufs =
     (case traverse (\<lambda>f. str_mod ''%(f)s=nv.%(f)s''
               (Mapping [(''f'', Str (quote_name (ops con) (column f)))])) ufs of
        Inl e \<Rightarrow> Inl e
      | Inr items \<Rightarrow> Inr (join '','' items))"

definition where_keys :: "connection \<Rightarrow> ('o, 'v, 'p) field list \<Rightarrow> error + string" where
  "where_keys con kfs =
     (case traverse (\<lambda>f. str_mod ''m.%(f)s=nv.%(f)s''
               (Mapping [(''f'', Str (quote_name (ops con) (column f)))])) kfs of
        Inl e \<Rightarrow> Inl e
      | Inr items \<Rightarrow> Inr (join '' AND '' items))"

definition up_where_keys :: "connection \<Rightarrow> ('o, 'v, 'p) field list \<Rightarrow> error + string" where
  "up_where_keys con kfs =
     (case traverse (\<lambda>f. str_mod ''up.%(f)s=new_values.%(f)s''
               (Mapping [(''f'', Str (quote_name (ops con) (column f)))])) kfs of
        Inl e \<Rightarrow> Inl e
      | Inr items \<Rightarrow> Inr (join '' AND '' items))"

text \<open>
  The dictionary \<^verbatim>\<open>sql_replacements\<close>: nine of its fourteen values are strings, the
  other five are lists of names, of fields or of parameters.
\<close>

definition sql_replacements ::
  "string \<Rightarrow> string \<Rightarrow> string \<Rightarrow> string \<Rightarrow> string \<Rightarrow> string \<Rightarrow> string \<Rightarrow> string \<Rightarrow> string
     \<Rightarrow> (string \<times> pyval) list" where
  "sql_replacements table acn kcn ucn tp phs asg wk uwk =
     [(''keys'', Other),
      (''table'', Str table),
      (''all_fields'', Other),
      (''all_col_names'', Str acn),
      (''key_fields'', Other),
      (''key_col_names'', Str kcn),
      (''update_fields'', Other),
      (''update_col_names'', Str ucn),
      (''tuple_placeholder'', Str tp),
      (''placeholders'', Str phs),
      (''parameters'', Other),
      (''assignments'', Str asg),
      (''where_keys'', Str wk),
      (''up_where_keys'', Str uwk)]"

text \<open>The triple-quoted literal of lines 101 to 120, character for character.\<close>

definition sql_template :: string where
  "sql_template =
''\<newline>        WITH new_values (%(all_col_names)s) AS (\<newline>          VALUES\<newline>            %(placeholders)s\<newline>        ),\<newline>        upsert AS\<newline>        (\<newline>            UPDATE %(table)s m\<newline>                SET %(assignments)s\<newline>            FROM new_values nv\<newline>            WHERE %(where_keys)s\<newline>            RETURNING m.*\<newline>        )\<newline>        INSERT INTO %(table)s (%(all_col_names)s)\<newline>        SELECT %(all_col_names)s\<newline>        FROM new_values\<newline>        WHERE NOT EXISTS (SELECT 1\<newline>                          FROM upsert up\<newline>                          WHERE %(up_where_keys)s)\<newline>    ''"

text \<open>
  Lines 59 to 120: the statement and its parameters, for resolved keys that passed the
  assertion. The formatting steps run in the order of the source.
\<close>

definition statement ::
  "connection \<Rightarrow> ('o, 'v, 'p) model \<Rightarrow> 'o list \<Rightarrow> string list \<Rightarrow> string list
     \<Rightarrow> error + string \<times> 'p list" where
  "statement con model objects keys skip_for_update =
     (case tuple_placeholder con model of
        Inl e \<Rightarrow> Inl e
      | Inr tp \<Rightarrow>
     (case assignments con (update_fields model keys skip_for_update) of
        Inl e \<Rightarrow> Inl e
      | Inr asg \<Rightarrow>
     (case where_keys con (key_fields model keys) of
        Inl e \<Rightarrow> Inl e
      | Inr wk \<Rightarrow>
     (case up_where_keys con (key_fields model keys) of
        Inl e \<Rightarrow> Inl e
      | Inr uwk \<Rightarrow>
     (case str_mod sql_template
             (Mapping (sql_replacements (db_table (meta model)) (all_col_names con model)
                (key_col_names con model keys)
                (update_col_names con model keys skip_for_update)
                tp (placeholders tp objects) asg wk uwk)) of
        Inl e \<Rightarrow> Inl e
      | Inr sql \<Rightarrow> Inr (sql, parameters con model objects))))))"

text \<open>
  The function itself. Its result is the exception it raised, if any, and the calls it
  made on the database layer. The default of \<^verbatim>\<open>using\<close> is \<^verbatim>\<open>"default"\<close>.
\<close>

definition insert_or_update_many ::
  "(string \<Rightarrow> connection) \<Rightarrow> ('o, 'v, 'p) model \<Rightarrow> 'o list \<Rightarrow> string list option
     \<Rightarrow> string list \<Rightarrow> string \<Rightarrow> (error + unit) \<times> 'p event list" where
  "insert_or_update_many connections model objects keys skip_for_update using =
     (if objects = [] then (Inr (), [])
      else
        let keys = keys_or_pk keys model;
            con = connections using
        in if key_fields model keys = [] then (Inl (AssertionError ''Empty key fields''), [])
           else
             (case statement con model objects keys skip_for_update of
                Inl e \<Rightarrow> (Inl e, [])
              | Inr (sql, ps) \<Rightarrow>
                  (Inr (), [Cursor using, Execute using sql ps, CommitUnlessManaged None])))"

subsection \<open>The statement written out\<close>

text \<open>
  The text that formatting the template yields, as a plain concatenation: the pieces of
  the literal between its six kinds of directive, with the arguments in their places.
\<close>

definition rendered ::
  "string \<Rightarrow> string \<Rightarrow> string \<Rightarrow> string \<Rightarrow> string \<Rightarrow> string \<Rightarrow> string" where
  "rendered table acn phs asg wk uwk =
     ''\<newline>        WITH new_values ('' @ acn @ '') AS (\<newline>          VALUES\<newline>            '' @ phs @
     ''\<newline>        ),\<newline>        upsert AS\<newline>        (\<newline>            UPDATE '' @ table @
     '' m\<newline>                SET '' @ asg @
     ''\<newline>            FROM new_values nv\<newline>            WHERE '' @ wk @
     ''\<newline>            RETURNING m.*\<newline>        )\<newline>        INSERT INTO '' @ table @ '' ('' @ acn @
     '')\<newline>        SELECT '' @ acn @
     ''\<newline>        FROM new_values\<newline>        WHERE NOT EXISTS (SELECT 1\<newline>                          FROM upsert up\<newline>                          WHERE '' @ uwk @ '')\<newline>    ''"

subsection \<open>An example: the table \<^verbatim>\<open>widgets(id, sku, qty)\<close>\<close>

datatype val = VNull | VInt int | VStr string

record widget =
  wid :: "int option"
  sku :: string
  qty :: int

text \<open>A connection whose \<^verbatim>\<open>quote_name\<close> wraps a name in double quotes.\<close>

text \<open>The double quote character.\<close>

definition dq :: string where
  "dq = [CHR 0x22]"

definition pg :: connection where
  "pg = \<lparr>ops = \<lparr>quote_name = (\<lambda>n. dq @ n @ dq)\<rparr>\<rparr>"

definition id_field :: "(widget, val, val) field" where
  "id_field = \<lparr>name = ''id'', column = ''id'', is_AutoField = True,
     db_type = (\<lambda>con. ''serial''),
     pre_save = (\<lambda>w add. case wid w of None \<Rightarrow> VNull | Some i \<Rightarrow> VInt i),
     get_db_prep_save = (\<lambda>v con. v)\<rparr>"

definition sku_field :: "(widget, val, val) field" where
  "sku_field = \<lparr>name = ''sku'', column = ''sku'', is_AutoField = False,
     db_type = (\<lambda>con. ''varchar(32)''),
     pre_save = (\<lambda>w add. VStr (sku w)),
     get_db_prep_save = (\<lambda>v con. v)\<rparr>"

definition qty_field :: "(widget, val, val) field" where
  "qty_field = \<lparr>name = ''qty'', column = ''qty'', is_AutoField = False,
     db_type = (\<lambda>con. ''integer''),
     pre_save = (\<lambda>w add. VInt (qty w)),
     get_db_prep_save = (\<lambda>v con. v)\<rparr>"

definition widgets :: "(widget, val, val) model" where
  "widgets = \<lparr>meta = \<lparr>db_table = ''widgets'',
     meta_fields = [id_field, sku_field, qty_field], pk = id_field\<rparr>\<rparr>"

definition widget_A :: widget where
  "widget_A = \<lparr>wid = None, sku = ''A'', qty = 5\<rparr>"

definition widget_B :: widget where
  "widget_B = \<lparr>wid = None, sku = ''B'', qty = 2\<rparr>"

text \<open>
  The same table with a creation time stamp, whose \<^verbatim>\<open>pre_save\<close> supplies the value
  whatever the object holds.
\<close>

definition created_field :: "(widget, val, val) field" where
  "created_field = \<lparr>name = ''created_at'', column = ''created_at'', is_AutoField = False,
     db_type = (\<lambda>con. ''timestamp''),
     pre_save = (\<lambda>w add. VStr ''2013-05-01 12:00:00''),
     get_db_prep_save = (\<lambda>v con. v)\<rparr>"

definition stamped_widgets :: "(widget, val, val) model" where
  "stamped_widgets = \<lparr>meta = \<lparr>db_table = ''widgets'',
     meta_fields = [id_field, sku_field, qty_field, created_field], pk = id_field\<rparr>\<rparr>"

section \<open>Properties\<close>

subsection \<open>Formatting\<close>

lemmas widget_defs = widgets_def id_field_def sku_field_def qty_field_def pg_def
  widget_A_def widget_B_def dq_def

lemma traverse_Inr:
  "(\<And>x. x \<in> set xs \<Longrightarrow> g x = Inr (h x)) \<Longrightarrow> traverse g xs = Inr (map h xs)"
  by (induction xs) simp_all

lemma str_mod_cast: "str_mod ''%%s::%s'' (Positional [Str t]) = Inr (''%s::'' @ t)"
  by (simp add: str_mod_def prepend_def)

lemma str_mod_paren: "str_mod ''(%s)'' (Positional [Str t]) = Inr (''('' @ t @ '')'')"
  by (simp add: str_mod_def prepend_def)

lemma str_mod_assign:
  "str_mod ''%(f)s=nv.%(f)s'' (Mapping [(''f'', Str q)]) = Inr (q @ ''=nv.'' @ q)"
  by (simp add: str_mod_def prepend_def)

lemma str_mod_where:
  "str_mod ''m.%(f)s=nv.%(f)s'' (Mapping [(''f'', Str q)]) = Inr (''m.'' @ q @ ''=nv.'' @ q)"
  by (simp add: str_mod_def prepend_def)

lemma str_mod_up_where:
  "str_mod ''up.%(f)s=new_values.%(f)s'' (Mapping [(''f'', Str q)])
     = Inr (''up.'' @ q @ ''=new_values.'' @ q)"
  by (simp add: str_mod_def prepend_def)

lemma str_mod_template:
  "str_mod sql_template (Mapping (sql_replacements t acn kcn ucn tp phs asg wk uwk))
     = Inr (rendered t acn phs asg wk uwk)"
  by (simp add: str_mod_def prepend_def sql_template_def sql_replacements_def rendered_def)

lemma tuple_placeholder_eq:
  "tuple_placeholder con model
     = Inr (''('' @ join '','' (map (\<lambda>f. ''%s::'' @ db_type f con) (model_fields model)) @ '')'')"
  by (simp add: tuple_placeholder_def str_mod_cast str_mod_paren
        traverse_Inr [where h = "\<lambda>f. ''%s::'' @ db_type f con"])

lemma assignments_eq:
  "assignments con fs
     = Inr (join '','' (map (\<lambda>f. quote_name (ops con) (column f) @ ''=nv.''
                                 @ quote_name (ops con) (column f)) fs))"
  by (simp add: assignments_def str_mod_assign
        traverse_Inr [where h = "\<lambda>f. quote_name (ops con) (column f) @ ''=nv.''
                                 @ quote_name (ops con) (column f)"])

lemma where_keys_eq:
  "where_keys con fs
     = Inr (join '' AND '' (map (\<lambda>f. ''m.'' @ quote_name (ops con) (column f) @ ''=nv.''
                                 @ quote_name (ops con) (column f)) fs))"
  by (simp add: where_keys_def str_mod_where
        traverse_Inr [where h = "\<lambda>f. ''m.'' @ quote_name (ops con) (column f) @ ''=nv.''
                                 @ quote_name (ops con) (column f)"])

lemma up_where_keys_eq:
  "up_where_keys con fs
     = Inr (join '' AND '' (map (\<lambda>f. ''up.'' @ quote_name (ops con) (column f)
                                 @ ''=new_values.'' @ quote_name (ops con) (column f)) fs))"
  by (simp add: up_where_keys_def str_mod_up_where
        traverse_Inr [where h = "\<lambda>f. ''up.'' @ quote_name (ops con) (column f)
                                 @ ''=new_values.'' @ quote_name (ops con) (column f)"])

lemma statement_eq:
  "statement con model objects keys skip =
     Inr (rendered (db_table (meta model)) (all_col_names con model)
            (join '','' (replicate (length objects)
               (''('' @ join '','' (map (\<lambda>f. ''%s::'' @ db_type f con) (model_fields model))
                  @ '')'')))
            (join '','' (map (\<lambda>f. quote_name (ops con) (column f) @ ''=nv.''
                                 @ quote_name (ops con) (column f))
               (update_fields model keys skip)))
            (join '' AND '' (map (\<lambda>f. ''m.'' @ quote_name (ops con) (column f) @ ''=nv.''
                                 @ quote_name (ops con) (column f)) (key_fields model keys)))
            (join '' AND '' (map (\<lambda>f. ''up.'' @ quote_name (ops con) (column f)
                                 @ ''=new_values.'' @ quote_name (ops con) (column f))
               (key_fields model keys))),
          parameters con model objects)"
  unfolding statement_def tuple_placeholder_eq assignments_eq where_keys_eq up_where_keys_eq
    str_mod_template placeholders_def
  by simp

subsection \<open>The three ways a call ends\<close>

lemma iom_empty: "insert_or_update_many connections model [] keys skip using = (Inr (), [])"
  by (simp add: insert_or_update_many_def)

lemma iom_no_keys:
  "objects \<noteq> [] \<Longrightarrow> key_fields model (keys_or_pk keys model) = [] \<Longrightarrow>
   insert_or_update_many connections model objects keys skip using
     = (Inl (AssertionError ''Empty key fields''), [])"
  by (simp add: insert_or_update_many_def Let_def)

lemma iom_executes:
  "objects \<noteq> [] \<Longrightarrow> key_fields model (keys_or_pk keys model) \<noteq> [] \<Longrightarrow>
   statement (connections using) model objects (keys_or_pk keys model) skip = Inr (sql, ps) \<Longrightarrow>
   insert_or_update_many connections model objects keys skip using
     = (Inr (), [Cursor using, Execute using sql ps, CommitUnlessManaged None])"
  by (simp add: insert_or_update_many_def Let_def)

lemma iom_events:
  "e \<in> set (snd (insert_or_update_many connections model objects keys skip using)) \<Longrightarrow>
   objects \<noteq> [] \<and> key_fields model (keys_or_pk keys model) \<noteq> []"
  by (cases "objects = []"; cases "key_fields model (keys_or_pk keys model) = []")
     (simp_all add: iom_empty iom_no_keys)

subsection \<open>Which fields are keys and which are updated\<close>

lemma key_fields_empty_iff:
  "key_fields model ks = [] \<longleftrightarrow> set ks \<inter> set (all_field_names model) = {}"
  by (auto simp: key_fields_def all_field_names_def model_fields_def filter_empty_conv)

lemma name_unique:
  "distinct (map name fs) \<Longrightarrow> f \<in> set fs \<Longrightarrow> g \<in> set fs \<Longrightarrow> name f = name g \<Longrightarrow> f = g"
  by (meson distinct_map inj_onD)

lemma in_all_field_names_iff:
  assumes "distinct (map name (meta_fields (meta model)))"
    and "f \<in> set (meta_fields (meta model))"
  shows "name f \<in> set (all_field_names model) \<longleftrightarrow> \<not> is_AutoField f"
proof
  assume "name f \<in> set (all_field_names model)"
  then obtain g where g: "g \<in> set (meta_fields (meta model))" "\<not> is_AutoField g" "name g = name f"
    by (auto simp: all_field_names_def model_fields_def)
  with assms have "g = f" by (metis name_unique)
  with g show "\<not> is_AutoField f" by simp
next
  assume "\<not> is_AutoField f"
  with assms(2) show "name f \<in> set (all_field_names model)"
    by (auto simp: all_field_names_def model_fields_def)
qed

lemma update_fields_filter:
  assumes "distinct (map name (meta_fields (meta model)))"
  shows "update_fields model ks skip
           = [f \<leftarrow> model_fields model. name f \<notin> set ks \<and> name f \<notin> set skip]"
  unfolding update_fields_def model_fields_def filter_filter
  by (rule filter_cong) (auto simp: in_all_field_names_iff [OF assms])

lemma key_fields_filter:
  assumes "distinct (map name (meta_fields (meta model)))"
  shows "key_fields model ks = [f \<leftarrow> model_fields model. name f \<in> set ks]"
  unfolding key_fields_def model_fields_def filter_filter
  by (rule filter_cong) (auto simp: in_all_field_names_iff [OF assms])

text \<open>
  Claim C3. The call raises the assertion error exactly when the list of objects is not
  empty and no name among the resolved keys is the name of a table field (a field that is
  not an \<^verbatim>\<open>AutoField\<close>). It then raises \<^verbatim>\<open>AssertionError("Empty key fields")\<close>
  having made no call on the database layer: no cursor, no statement. On an empty list of
  objects the call returns at once, with no error and no call on the database layer,
  whatever the keys are.
\<close>

theorem precondition_failure:
  "((\<exists>msg. fst (insert_or_update_many connections model objects keys skip using)
              = Inl (AssertionError msg))
      \<longleftrightarrow> objects \<noteq> [] \<and> set (keys_or_pk keys model) \<inter> set (all_field_names model) = {})
   \<and> (objects \<noteq> [] \<and> set (keys_or_pk keys model) \<inter> set (all_field_names model) = {}
        \<longrightarrow> insert_or_update_many connections model objects keys skip using
              = (Inl (AssertionError ''Empty key fields''), []))
   \<and> (objects = []
        \<longrightarrow> insert_or_update_many connections model objects keys skip using = (Inr (), []))"
proof (cases "objects = []")
  case True
  then show ?thesis by (simp add: iom_empty)
next
  case ne: False
  show ?thesis
  proof (cases "key_fields model (keys_or_pk keys model) = []")
    case True
    with ne show ?thesis
      by (simp add: iom_no_keys key_fields_empty_iff [symmetric])
  next
    case False
    with ne show ?thesis
      by (simp add: iom_executes [OF _ _ statement_eq] key_fields_empty_iff [symmetric])
  qed
qed

theorem precondition_failure_witness:
  "insert_or_update_many (\<lambda>u. pg) widgets [widget_A] (Some [''nope'']) [] ''default''
     = (Inl (AssertionError ''Empty key fields''), [])
   \<and> insert_or_update_many (\<lambda>u. pg) widgets [] (Some [''nope'']) [] ''default'' = (Inr (), [])
   \<and> \<not> (\<exists>msg. fst (insert_or_update_many (\<lambda>u. pg) widgets [widget_A] (Some [''sku'']) [] ''default'')
              = Inl (AssertionError msg))"
  using precondition_failure [of "\<lambda>u. pg" widgets "[widget_A]" "Some [''nope'']" "[]" "''default''"]
    precondition_failure [of "\<lambda>u. pg" widgets "[]" "Some [''nope'']" "[]" "''default''"]
    precondition_failure [of "\<lambda>u. pg" widgets "[widget_A]" "Some [''sku'']" "[]" "''default''"]
  by (simp add: keys_or_pk_def all_field_names_def model_fields_def widget_defs)

text \<open>
  Claim C10. When \<^verbatim>\<open>keys\<close> is \<^verbatim>\<open>None\<close> or the empty list, the keys are the
  one-element list of the primary key's name. So for a model whose primary key is an
  \<^verbatim>\<open>AutoField\<close> (one of the model's fields, whose names are distinct), every call
  with objects and no explicit keys finds no key field and raises
  \<^verbatim>\<open>AssertionError("Empty key fields")\<close>.
\<close>

theorem default_key_is_pk:
  assumes "keys = None \<or> keys = Some []"
  shows "keys_or_pk keys model = [name (pk (meta model))]
    \<and> (objects \<noteq> [] \<and> is_AutoField (pk (meta model))
         \<and> pk (meta model) \<in> set (meta_fields (meta model))
         \<and> distinct (map name (meta_fields (meta model)))
       \<longrightarrow> insert_or_update_many connections model objects keys skip using
             = (Inl (AssertionError ''Empty key fields''), []))"
proof -
  have k: "keys_or_pk keys model = [name (pk (meta model))]"
    using assms by (auto simp: keys_or_pk_def)
  {
    assume ne: "objects \<noteq> []" and a: "is_AutoField (pk (meta model))"
      and m: "pk (meta model) \<in> set (meta_fields (meta model))"
      and d: "distinct (map name (meta_fields (meta model)))"
    from in_all_field_names_iff [OF d m] a
    have "name (pk (meta model)) \<notin> set (all_field_names model)" by simp
    then have "key_fields model (keys_or_pk keys model) = []"
      by (simp add: key_fields_empty_iff k)
    with ne have "insert_or_update_many connections model objects keys skip using
             = (Inl (AssertionError ''Empty key fields''), [])"
      by (rule iom_no_keys)
  }
  with k show ?thesis by blast
qed

theorem default_key_is_pk_witness:
  "keys_or_pk None widgets = [''id'']
   \<and> insert_or_update_many (\<lambda>u. pg) widgets [widget_A, widget_B] None [] ''default''
       = (Inl (AssertionError ''Empty key fields''), [])"
  using default_key_is_pk [of None widgets "[widget_A, widget_B]" "\<lambda>u. pg" "[]" "''default''"]
  by (simp add: widget_defs)

subsection \<open>The statement and its parameters\<close>

lemma iom_execute_event:
  assumes "Execute u sql ps
             \<in> set (snd (insert_or_update_many connections model objects keys skip using))"
  shows "objects \<noteq> [] \<and> key_fields model (keys_or_pk keys model) \<noteq> [] \<and> u = using
    \<and> statement (connections using) model objects (keys_or_pk keys model) skip
        = Inr (sql, ps)"
proof -
  from iom_events [OF assms]
  have ne: "objects \<noteq> []" and k: "key_fields model (keys_or_pk keys model) \<noteq> []"
    by simp_all
  obtain s p where st:
    "statement (connections using) model objects (keys_or_pk keys model) skip = Inr (s, p)"
    by (simp add: statement_eq)
  from assms have "u = using \<and> sql = s \<and> ps = p"
    by (simp add: iom_executes [of objects model keys connections "using" skip s p, OF ne k st])
  with ne k st show ?thesis by simp
qed


lemma count_list_join:
  "c \<notin> set sep \<Longrightarrow> count_list (join sep xs) c = sum_list (map (\<lambda>x. count_list x c) xs)"
  by (induction sep xs rule: join.induct) simp_all

lemma count_casts:
  "\<forall>f \<in> set fs. CHR ''%'' \<notin> set (t f) \<Longrightarrow>
   sum_list (map (\<lambda>x. count_list x (CHR ''%'')) (map (\<lambda>f. ''%s::'' @ t f) fs)) = length fs"
  by (induction fs) simp_all

lemma concat_rows_nth:
  "i < length objs \<Longrightarrow> j < length fs \<Longrightarrow>
   concat (map (\<lambda>obj. map (g obj) fs) objs) ! (i * length fs + j) = g (objs ! i) (fs ! j)"
proof (induction objs arbitrary: i)
  case Nil
  then show ?case by simp
next
  case (Cons a objs)
  show ?case
  proof (cases i)
    case 0
    with Cons.prems show ?thesis by (simp add: nth_append)
  next
    case (Suc k)
    with Cons.prems have "k < length objs" by simp
    from Cons.IH [OF this Cons.prems(2)] Suc show ?thesis
      by (simp add: nth_append)
  qed
qed

lemma parameters_rows:
  "parameters con model objects
     = concat (map (\<lambda>obj. map (\<lambda>f. get_db_prep_save f (pre_save f obj True) con)
                              (model_fields model)) objects)"
  by (simp add: parameters_def prep_values_def)

lemma iom_calls:
  assumes "objects \<noteq> []" and "key_fields model (keys_or_pk keys model) \<noteq> []"
  shows "\<exists>sql. insert_or_update_many connections model objects keys skip using
           = (Inr (), [Cursor using,
                Execute using sql (parameters (connections using) model objects),
                CommitUnlessManaged None])"
  using iom_executes [of objects model keys connections "using" skip, OF assms statement_eq]
  by blast


lemma join_no_char:
  "c \<notin> set sep \<Longrightarrow> \<forall>x \<in> set xs. c \<notin> set x \<Longrightarrow> c \<notin> set (join sep xs)"
  by (induction sep xs rule: join.induct) simp_all

lemma count_rendered:
  "count_list (rendered t a p s w u) (CHR ''%'')
     = 3 * count_list a (CHR ''%'') + count_list p (CHR ''%'') + 2 * count_list t (CHR ''%'')
       + count_list s (CHR ''%'') + count_list w (CHR ''%'') + count_list u (CHR ''%'')"
  by (simp add: rendered_def)

lemma quoted_unique:
  "distinct (map q fs) \<Longrightarrow> f \<in> set fs \<Longrightarrow> g \<in> set fs \<Longrightarrow> q f = q g \<Longrightarrow> f = g"
  by (meson distinct_map inj_onD)

lemma statement_text:
  assumes "Execute u sql ps
             \<in> set (snd (insert_or_update_many connections model objects keys skip using))"
  shows "sql = rendered (db_table (meta model))
            (join '','' (map (\<lambda>f. quote_name (ops (connections using)) (column f))
               (model_fields model)))
            (join '','' (map (\<lambda>obj. ''('' @ join '','' (map (\<lambda>f. ''%s::''
                 @ db_type f (connections using)) (model_fields model)) @ '')'') objects))
            (join '','' (map (\<lambda>f. quote_name (ops (connections using)) (column f) @ ''=nv.''
                 @ quote_name (ops (connections using)) (column f))
               (update_fields model (keys_or_pk keys model) skip)))
            (join '' AND '' (map (\<lambda>f. ''m.'' @ quote_name (ops (connections using)) (column f)
                 @ ''=nv.'' @ quote_name (ops (connections using)) (column f))
               (key_fields model (keys_or_pk keys model))))
            (join '' AND '' (map (\<lambda>f. ''up.'' @ quote_name (ops (connections using)) (column f)
                 @ ''=new_values.'' @ quote_name (ops (connections using)) (column f))
               (key_fields model (keys_or_pk keys model))))
    \<and> ps = concat (map (\<lambda>obj. map (\<lambda>f. get_db_prep_save f (pre_save f obj True)
                 (connections using)) (model_fields model)) objects)"
proof -
  from iom_execute_event [OF assms]
  have "statement (connections using) model objects (keys_or_pk keys model) skip
          = Inr (sql, ps)"
    by simp
  then show ?thesis
    unfolding statement_eq all_col_names_def map_replicate_const parameters_rows by simp
qed

text \<open>
  Claim C2. In every call that reaches \<^verbatim>\<open>cursor.execute\<close>, the statement is the text
  below: \<^verbatim>\<open>WITH new_values (\<close>all columns\<^verbatim>\<open>) AS (VALUES\<close> one tuple of cast
  placeholders for each object\<^verbatim>\<open>)\<close>, then the table expression \<^verbatim>\<open>upsert\<close> with
  \<^verbatim>\<open>UPDATE\<close> table \<^verbatim>\<open>m SET\<close> one assignment from \<^verbatim>\<open>nv\<close> for each update column
  \<^verbatim>\<open>FROM new_values nv WHERE\<close> equality of \<^verbatim>\<open>m\<close> and \<^verbatim>\<open>nv\<close> on every key column
  \<^verbatim>\<open>RETURNING m.*\<close>, then \<^verbatim>\<open>INSERT INTO\<close> table with all columns, selecting all
  columns from \<^verbatim>\<open>new_values\<close> where no row of \<^verbatim>\<open>upsert\<close> agrees on every key column.
  The layout (line breaks and indentation) is that of the source's literal.
\<close>

theorem statement_shape:
  assumes "Execute u sql ps
             \<in> set (snd (insert_or_update_many connections model objects keys skip using))"
  shows "let q = (\<lambda>f. quote_name (ops (connections using)) (column f));
             ks = keys_or_pk keys model
         in sql =
     ''\<newline>        WITH new_values ('' @ join '','' (map q (model_fields model)) @
     '') AS (\<newline>          VALUES\<newline>            '' @
        join '','' (replicate (length objects)
          (''('' @ join '','' (map (\<lambda>f. ''%s::'' @ db_type f (connections using))
                                  (model_fields model)) @ '')'')) @
     ''\<newline>        ),\<newline>        upsert AS\<newline>        (\<newline>            UPDATE '' @ db_table (meta model) @
     '' m\<newline>                SET '' @
        join '','' (map (\<lambda>f. q f @ ''=nv.'' @ q f) (update_fields model ks skip)) @
     ''\<newline>            FROM new_values nv\<newline>            WHERE '' @
        join '' AND '' (map (\<lambda>f. ''m.'' @ q f @ ''=nv.'' @ q f) (key_fields model ks)) @
     ''\<newline>            RETURNING m.*\<newline>        )\<newline>        INSERT INTO '' @ db_table (meta model) @ '' ('' @
        join '','' (map q (model_fields model)) @
     '')\<newline>        SELECT '' @ join '','' (map q (model_fields model)) @
     ''\<newline>        FROM new_values\<newline>        WHERE NOT EXISTS (SELECT 1\<newline>                          FROM upsert up\<newline>                          WHERE '' @
        join '' AND '' (map (\<lambda>f. ''up.'' @ q f @ ''=new_values.'' @ q f) (key_fields model ks)) @
     '')\<newline>    ''"
proof -
  from iom_execute_event [OF assms]
  have "statement (connections using) model objects (keys_or_pk keys model) skip
          = Inr (sql, ps)"
    by simp
  then show ?thesis
    unfolding statement_eq Let_def rendered_def all_col_names_def by simp
qed

theorem statement_shape_witness:
  "insert_or_update_many (\<lambda>u. pg) widgets [widget_A, widget_B] (Some [''sku'']) [] ''default''
     = (Inr (), [Cursor ''default'',
          Execute ''default''
            (''\<newline>        WITH new_values ('' @ dq @ ''sku'' @ dq @ '','' @ dq @ ''qty'' @ dq @
             '') AS (\<newline>          VALUES\<newline>            (%s::varchar(32),%s::integer),(%s::varchar(32),%s::integer)\<newline>        ),\<newline>        upsert AS\<newline>        (\<newline>            UPDATE widgets m\<newline>                SET '' @
             dq @ ''qty'' @ dq @ ''=nv.'' @ dq @ ''qty'' @ dq @
             ''\<newline>            FROM new_values nv\<newline>            WHERE m.'' @
             dq @ ''sku'' @ dq @ ''=nv.'' @ dq @ ''sku'' @ dq @
             ''\<newline>            RETURNING m.*\<newline>        )\<newline>        INSERT INTO widgets ('' @
             dq @ ''sku'' @ dq @ '','' @ dq @ ''qty'' @ dq @
             '')\<newline>        SELECT '' @ dq @ ''sku'' @ dq @ '','' @ dq @ ''qty'' @ dq @
             ''\<newline>        FROM new_values\<newline>        WHERE NOT EXISTS (SELECT 1\<newline>                          FROM upsert up\<newline>                          WHERE up.'' @
             dq @ ''sku'' @ dq @ ''=new_values.'' @ dq @ ''sku'' @ dq @ '')\<newline>    '')
            [VStr ''A'', VInt 5, VStr ''B'', VInt 2],
          CommitUnlessManaged None])"
proof -
  have k: "key_fields widgets (keys_or_pk (Some [''sku'']) widgets) \<noteq> []"
    by (simp add: key_fields_def keys_or_pk_def all_field_names_def model_fields_def widget_defs)
  from iom_calls [OF _ k, of "[widget_A, widget_B]" "\<lambda>u. pg" "[]" "''default''"]
  obtain sql where r:
    "insert_or_update_many (\<lambda>u. pg) widgets [widget_A, widget_B] (Some [''sku'']) [] ''default''
       = (Inr (), [Cursor ''default'',
            Execute ''default'' sql (parameters pg widgets [widget_A, widget_B]),
            CommitUnlessManaged None])"
    by auto
  then have "Execute ''default'' sql (parameters pg widgets [widget_A, widget_B])
      \<in> set (snd (insert_or_update_many (\<lambda>u. pg) widgets [widget_A, widget_B]
                     (Some [''sku'']) [] ''default''))"
    by simp
  from statement_shape [OF this] show ?thesis
    unfolding r
    by (simp add: Let_def key_fields_def update_fields_def keys_or_pk_def all_field_names_def
          model_fields_def parameters_def prep_values_def widget_defs)
qed

text \<open>
  Claim C5. In every call that reaches \<^verbatim>\<open>cursor.execute\<close>, the parameter list is the
  concatenation, object after object, of each object's prepared values in the order of
  the table fields; it has one value for each field of each object, the value at index
  \<open>i * n + j\<close> being that of field \<open>j\<close> of object \<open>i\<close>. The statement is the text
  below, whose \<^verbatim>\<open>VALUES\<close> list is exactly one tuple for each object, in the order of
  the objects, with one placeholder for each table field, in the order of the fields.
  When neither the table name, nor a quoted column, nor a database type contains a percent
  sign, the number of percent signs in the \<^verbatim>\<open>VALUES\<close> list, and in the whole
  statement, is the number of parameters.
\<close>

theorem parameters_match_placeholders:
  assumes "Execute u sql ps
             \<in> set (snd (insert_or_update_many connections model objects keys skip using))"
  shows "let con = connections using; fs = model_fields model; ks = keys_or_pk keys model;
             q = (\<lambda>f. quote_name (ops con) (column f));
             cols = join '','' (map q fs);
             vals = join '','' (map (\<lambda>obj. ''('' @ join '','' (map (\<lambda>f. ''%s::'' @ db_type f con) fs)
                                            @ '')'') objects);
             sets = join '','' (map (\<lambda>f. q f @ ''=nv.'' @ q f) (update_fields model ks skip));
             on_m = join '' AND '' (map (\<lambda>f. ''m.'' @ q f @ ''=nv.'' @ q f) (key_fields model ks));
             on_up = join '' AND '' (map (\<lambda>f. ''up.'' @ q f @ ''=new_values.'' @ q f)
                       (key_fields model ks))
         in ps = concat (map (\<lambda>obj. map (\<lambda>f. get_db_prep_save f (pre_save f obj True) con) fs)
                           objects)
          \<and> length ps = length objects * length fs
          \<and> (\<forall>i < length objects. \<forall>j < length fs.
                ps ! (i * length fs + j)
                  = get_db_prep_save (fs ! j) (pre_save (fs ! j) (objects ! i) True) con)
          \<and> sql =
            ''\<newline>        WITH new_values ('' @ cols @
            '') AS (\<newline>          VALUES\<newline>            '' @ vals @
            ''\<newline>        ),\<newline>        upsert AS\<newline>        (\<newline>            UPDATE '' @ db_table (meta model) @
            '' m\<newline>                SET '' @ sets @
            ''\<newline>            FROM new_values nv\<newline>            WHERE '' @ on_m @
            ''\<newline>            RETURNING m.*\<newline>        )\<newline>        INSERT INTO '' @ db_table (meta model) @
            '' ('' @ cols @
            '')\<newline>        SELECT '' @ cols @
            ''\<newline>        FROM new_values\<newline>        WHERE NOT EXISTS (SELECT 1\<newline>                          FROM upsert up\<newline>                          WHERE '' @ on_up @
            '')\<newline>    ''
          \<and> (CHR ''%'' \<notin> set (db_table (meta model))
               \<and> (\<forall>f \<in> set (meta_fields (meta model)).
                     CHR ''%'' \<notin> set (q f) \<and> CHR ''%'' \<notin> set (db_type f con))
              \<longrightarrow> count_list vals (CHR ''%'') = length ps
                  \<and> count_list sql (CHR ''%'') = length ps)"
proof -
  let ?con = "connections using"
  let ?fs = "model_fields model"
  let ?ks = "keys_or_pk keys model"
  let ?q = "\<lambda>f. quote_name (ops ?con) (column f)"
  let ?tp = "''('' @ join '','' (map (\<lambda>f. ''%s::'' @ db_type f ?con) ?fs) @ '')''"
  let ?cols = "join '','' (map ?q ?fs)"
  let ?vals = "join '','' (map (\<lambda>obj. ?tp) objects)"
  let ?sets = "join '','' (map (\<lambda>f. ?q f @ ''=nv.'' @ ?q f) (update_fields model ?ks skip))"
  let ?on_m = "join '' AND '' (map (\<lambda>f. ''m.'' @ ?q f @ ''=nv.'' @ ?q f) (key_fields model ?ks))"
  let ?on_up = "join '' AND '' (map (\<lambda>f. ''up.'' @ ?q f @ ''=new_values.'' @ ?q f)
                  (key_fields model ?ks))"
  note st = statement_text [OF assms]
  from st have sql: "sql = rendered (db_table (meta model)) ?cols ?vals ?sets ?on_m ?on_up"
    by simp
  from st have ps: "ps = concat (map (\<lambda>obj. map (\<lambda>f. get_db_prep_save f (pre_save f obj True) ?con) ?fs)
                           objects)"
    by simp
  have len: "length ps = length objects * length ?fs"
    unfolding ps by (simp add: length_concat comp_def sum_list_triv)
  have nth: "\<forall>i < length objects. \<forall>j < length ?fs.
                ps ! (i * length ?fs + j)
                  = get_db_prep_save (?fs ! j) (pre_save (?fs ! j) (objects ! i) True) ?con"
    unfolding ps
    using concat_rows_nth [where g = "\<lambda>obj f. get_db_prep_save f (pre_save f obj True) ?con"
        and fs = ?fs and objs = objects]
    by blast
  have cnt: "count_list ?vals (CHR ''%'') = length ps \<and> count_list sql (CHR ''%'') = length ps"
    if t: "CHR ''%'' \<notin> set (db_table (meta model))"
      and f: "\<forall>f \<in> set (meta_fields (meta model)).
               CHR ''%'' \<notin> set (?q f) \<and> CHR ''%'' \<notin> set (db_type f ?con)"
  proof -
    have sub: "set ?fs \<subseteq> set (meta_fields (meta model))"
      "set (update_fields model ?ks skip) \<subseteq> set (meta_fields (meta model))"
      "set (key_fields model ?ks) \<subseteq> set (meta_fields (meta model))"
      by (auto simp: model_fields_def update_fields_def key_fields_def)
    from f sub(1) have "\<forall>f \<in> set ?fs. CHR ''%'' \<notin> set (db_type f ?con)" by blast
    then have "sum_list (map (\<lambda>x. count_list x (CHR ''%''))
            (map (\<lambda>f. ''%s::'' @ db_type f ?con) ?fs)) = length ?fs"
      by (rule count_casts)
    then have "count_list ?tp (CHR ''%'') = length ?fs"
      by (simp add: count_list_join)
    then have v: "count_list ?vals (CHR ''%'') = length ps"
      by (simp add: count_list_join len comp_def sum_list_triv)
    from f sub(1) have "CHR ''%'' \<notin> set ?cols"
      by (intro join_no_char) auto
    then have c: "count_list ?cols (CHR ''%'') = 0" by simp
    from f sub(2) have "CHR ''%'' \<notin> set ?sets"
      by (intro join_no_char) auto
    then have s: "count_list ?sets (CHR ''%'') = 0" by simp
    from f sub(3) have "CHR ''%'' \<notin> set ?on_m"
      by (intro join_no_char) auto
    then have m: "count_list ?on_m (CHR ''%'') = 0" by simp
    from f sub(3) have "CHR ''%'' \<notin> set ?on_up"
      by (intro join_no_char) auto
    then have up: "count_list ?on_up (CHR ''%'') = 0" by simp
    from t have tb: "count_list (db_table (meta model)) (CHR ''%'') = 0" by simp
    have "count_list sql (CHR ''%'') = length ps"
      unfolding sql count_rendered c s m up tb v by simp
    with v show ?thesis by simp
  qed
  have full: "sql =
            ''\<newline>        WITH new_values ('' @ ?cols @
            '') AS (\<newline>          VALUES\<newline>            '' @ ?vals @
            ''\<newline>        ),\<newline>        upsert AS\<newline>        (\<newline>            UPDATE '' @ db_table (meta model) @
            '' m\<newline>                SET '' @ ?sets @
            ''\<newline>            FROM new_values nv\<newline>            WHERE '' @ ?on_m @
            ''\<newline>            RETURNING m.*\<newline>        )\<newline>        INSERT INTO '' @ db_table (meta model) @
            '' ('' @ ?cols @
            '')\<newline>        SELECT '' @ ?cols @
            ''\<newline>        FROM new_values\<newline>        WHERE NOT EXISTS (SELECT 1\<newline>                          FROM upsert up\<newline>                          WHERE '' @ ?on_up @
            '')\<newline>    ''"
    unfolding sql rendered_def by simp
  from ps len nth full cnt show ?thesis
    unfolding Let_def by blast
qed

theorem parameters_match_placeholders_witness:
  "\<exists>sql.
     insert_or_update_many (\<lambda>u. pg) widgets [widget_A, widget_B] (Some [''sku'']) []
         ''default''
       = (Inr (), [Cursor ''default'',
            Execute ''default'' sql [VStr ''A'', VInt 5, VStr ''B'', VInt 2],
            CommitUnlessManaged None])
     \<and> sql =
        ''\<newline>'' @
        ''        WITH new_values ('' @ dq @ ''sku'' @ dq @ '','' @ dq @ ''qty'' @ dq @ '') AS (\<newline>'' @
        ''          VALUES\<newline>'' @
        ''            (%s::varchar(32),%s::integer),(%s::varchar(32),%s::integer)\<newline>'' @
        ''        ),\<newline>'' @
        ''        upsert AS\<newline>'' @
        ''        (\<newline>'' @
        ''            UPDATE widgets m\<newline>'' @
        ''                SET '' @ dq @ ''qty'' @ dq @ ''=nv.'' @ dq @ ''qty'' @ dq @ ''\<newline>'' @
        ''            FROM new_values nv\<newline>'' @
        ''            WHERE m.'' @ dq @ ''sku'' @ dq @ ''=nv.'' @ dq @ ''sku'' @ dq @ ''\<newline>'' @
        ''            RETURNING m.*\<newline>'' @
        ''        )\<newline>'' @
        ''        INSERT INTO widgets ('' @ dq @ ''sku'' @ dq @ '','' @ dq @ ''qty'' @ dq @ '')\<newline>'' @
        ''        SELECT '' @ dq @ ''sku'' @ dq @ '','' @ dq @ ''qty'' @ dq @ ''\<newline>'' @
        ''        FROM new_values\<newline>'' @
        ''        WHERE NOT EXISTS (SELECT 1\<newline>'' @
        ''                          FROM upsert up\<newline>'' @
        ''                          WHERE up.'' @ dq @ ''sku'' @ dq @ ''=new_values.'' @ dq @ ''sku'' @ dq @ '')\<newline>'' @
        ''    ''
     \<and> count_list ''(%s::varchar(32),%s::integer),(%s::varchar(32),%s::integer)'' (CHR ''%'')
         = length [VStr ''A'', VInt 5, VStr ''B'', VInt 2]
     \<and> count_list sql (CHR ''%'') = length [VStr ''A'', VInt 5, VStr ''B'', VInt 2]"
proof -
  have mf: "model_fields widgets = [sku_field, qty_field]"
    by (simp add: model_fields_def widgets_def id_field_def sku_field_def qty_field_def)
  have ks: "keys_or_pk (Some [''sku'']) widgets = [''sku'']"
    by (simp add: keys_or_pk_def)
  have kf: "key_fields widgets [''sku''] = [sku_field]"
    by (simp add: key_fields_def all_field_names_def mf)
       (simp add: widgets_def id_field_def sku_field_def qty_field_def)
  have uf: "update_fields widgets [''sku''] [] = [qty_field]"
    by (simp add: update_fields_def all_field_names_def mf)
       (simp add: widgets_def id_field_def sku_field_def qty_field_def)
  have ps: "parameters pg widgets [widget_A, widget_B]
              = [VStr ''A'', VInt 5, VStr ''B'', VInt 2]"
    by (simp add: parameters_def prep_values_def mf sku_field_def qty_field_def
          widget_A_def widget_B_def)
  have k: "key_fields widgets (keys_or_pk (Some [''sku'']) widgets) \<noteq> []"
    unfolding ks kf by simp
  from iom_calls [OF _ k, of "[widget_A, widget_B]" "\<lambda>u. pg" "[]" "''default''"]
  obtain sql where r:
    "insert_or_update_many (\<lambda>u. pg) widgets [widget_A, widget_B] (Some [''sku'']) []
         ''default''
       = (Inr (), [Cursor ''default'',
            Execute ''default'' sql [VStr ''A'', VInt 5, VStr ''B'', VInt 2],
            CommitUnlessManaged None])"
    unfolding ps by auto
  then have "Execute ''default'' sql [VStr ''A'', VInt 5, VStr ''B'', VInt 2]
      \<in> set (snd (insert_or_update_many (\<lambda>u. pg) widgets [widget_A, widget_B]
                     (Some [''sku'']) [] ''default''))"
    by simp
  note t = parameters_match_placeholders [OF this, unfolded Let_def ks kf uf mf]
  from t [THEN conjunct2, THEN conjunct2, THEN conjunct2, THEN conjunct1]
  have sql: "sql =
        ''\<newline>'' @
        ''        WITH new_values ('' @ dq @ ''sku'' @ dq @ '','' @ dq @ ''qty'' @ dq @ '') AS (\<newline>'' @
        ''          VALUES\<newline>'' @
        ''            (%s::varchar(32),%s::integer),(%s::varchar(32),%s::integer)\<newline>'' @
        ''        ),\<newline>'' @
        ''        upsert AS\<newline>'' @
        ''        (\<newline>'' @
        ''            UPDATE widgets m\<newline>'' @
        ''                SET '' @ dq @ ''qty'' @ dq @ ''=nv.'' @ dq @ ''qty'' @ dq @ ''\<newline>'' @
        ''            FROM new_values nv\<newline>'' @
        ''            WHERE m.'' @ dq @ ''sku'' @ dq @ ''=nv.'' @ dq @ ''sku'' @ dq @ ''\<newline>'' @
        ''            RETURNING m.*\<newline>'' @
        ''        )\<newline>'' @
        ''        INSERT INTO widgets ('' @ dq @ ''sku'' @ dq @ '','' @ dq @ ''qty'' @ dq @ '')\<newline>'' @
        ''        SELECT '' @ dq @ ''sku'' @ dq @ '','' @ dq @ ''qty'' @ dq @ ''\<newline>'' @
        ''        FROM new_values\<newline>'' @
        ''        WHERE NOT EXISTS (SELECT 1\<newline>'' @
        ''                          FROM upsert up\<newline>'' @
        ''                          WHERE up.'' @ dq @ ''sku'' @ dq @ ''=new_values.'' @ dq @ ''sku'' @ dq @ '')\<newline>'' @
        ''    ''"
    by (simp add: widgets_def sku_field_def qty_field_def pg_def)
  have h: "CHR ''%'' \<notin> set (db_table (meta widgets))
      \<and> (\<forall>f \<in> set (meta_fields (meta widgets)).
            CHR ''%'' \<notin> set (quote_name (ops pg) (column f))
            \<and> CHR ''%'' \<notin> set (db_type f pg))"
    by (simp add: widgets_def id_field_def sku_field_def qty_field_def pg_def dq_def)
  from t [THEN conjunct2, THEN conjunct2, THEN conjunct2, THEN conjunct2] h
  have "count_list (join '','' (map (\<lambda>obj. ''('' @ join '','' (map (\<lambda>f. ''%s::'' @ db_type f pg)
              [sku_field, qty_field]) @ '')'') [widget_A, widget_B])) (CHR ''%'')
          = length [VStr ''A'', VInt 5, VStr ''B'', VInt 2]
      \<and> count_list sql (CHR ''%'') = length [VStr ''A'', VInt 5, VStr ''B'', VInt 2]"
    by blast
  then have c: "count_list ''(%s::varchar(32),%s::integer),(%s::varchar(32),%s::integer)''
          (CHR ''%'') = length [VStr ''A'', VInt 5, VStr ''B'', VInt 2]"
    and c': "count_list sql (CHR ''%'') = length [VStr ''A'', VInt 5, VStr ''B'', VInt 2]"
    by (simp_all add: sku_field_def qty_field_def)
  from r sql c c' show ?thesis
    by (intro exI [of _ sql]) (simp only: simp_thms)
qed



text \<open>
  Claim C4. For a model whose field names are distinct, in every call that reaches
  \<^verbatim>\<open>cursor.execute\<close>: the key fields are exactly the table fields whose names are
  among the keys, and the update fields are exactly the table fields whose names are
  neither among the keys nor among \<^verbatim>\<open>skip_for_update\<close>; the statement is the text
  below, whose \<^verbatim>\<open>SET\<close> clause has one assignment for each of these fields and no
  other, and whose \<^verbatim>\<open>INSERT\<close> and \<^verbatim>\<open>SELECT\<close> column lists have the columns of
  all table fields. So a table field named in \<^verbatim>\<open>skip_for_update\<close> has its column in
  the \<^verbatim>\<open>INSERT\<close> column list and is not among the fields of the \<^verbatim>\<open>SET\<close> clause;
  when the quoted columns of the model are distinct, its quoted column is not among the
  columns assigned in the \<^verbatim>\<open>SET\<close> clause. No key field is an update field.
\<close>

theorem update_fields_partition:
  assumes "Execute u sql ps
             \<in> set (snd (insert_or_update_many connections model objects keys skip using))"
    and "distinct (map name (meta_fields (meta model)))"
  shows "let con = connections using; ks = keys_or_pk keys model;
             q = (\<lambda>f. quote_name (ops con) (column f));
             ins = model_fields model;
             kfs = [f \<leftarrow> ins. name f \<in> set ks];
             upd = [f \<leftarrow> ins. name f \<notin> set ks \<and> name f \<notin> set skip];
             cols = join '','' (map q ins);
             vals = join '','' (map (\<lambda>obj. ''('' @ join '','' (map (\<lambda>f. ''%s::'' @ db_type f con) ins)
                                            @ '')'') objects);
             sets = join '','' (map (\<lambda>f. q f @ ''=nv.'' @ q f) upd);
             on_m = join '' AND '' (map (\<lambda>f. ''m.'' @ q f @ ''=nv.'' @ q f) kfs);
             on_up = join '' AND '' (map (\<lambda>f. ''up.'' @ q f @ ''=new_values.'' @ q f) kfs)
         in update_fields model ks skip = upd
          \<and> key_fields model ks = kfs
          \<and> sql =
            ''\<newline>        WITH new_values ('' @ cols @
            '') AS (\<newline>          VALUES\<newline>            '' @ vals @
            ''\<newline>        ),\<newline>        upsert AS\<newline>        (\<newline>            UPDATE '' @ db_table (meta model) @
            '' m\<newline>                SET '' @ sets @
            ''\<newline>            FROM new_values nv\<newline>            WHERE '' @ on_m @
            ''\<newline>            RETURNING m.*\<newline>        )\<newline>        INSERT INTO '' @ db_table (meta model) @
            '' ('' @ cols @
            '')\<newline>        SELECT '' @ cols @
            ''\<newline>        FROM new_values\<newline>        WHERE NOT EXISTS (SELECT 1\<newline>                          FROM upsert up\<newline>                          WHERE '' @ on_up @
            '')\<newline>    ''
          \<and> (\<forall>f \<in> set ins. name f \<in> set skip \<longrightarrow> f \<notin> set upd \<and> q f \<in> set (map q ins))
          \<and> (distinct (map q (meta_fields (meta model)))
                \<longrightarrow> (\<forall>f \<in> set ins. name f \<in> set skip \<longrightarrow> q f \<notin> set (map q upd)))
          \<and> set kfs \<inter> set upd = {}"
proof -
  let ?con = "connections using"
  let ?ks = "keys_or_pk keys model"
  let ?q = "\<lambda>f. quote_name (ops ?con) (column f)"
  let ?ins = "model_fields model"
  let ?kfs = "[f \<leftarrow> ?ins. name f \<in> set ?ks]"
  let ?upd = "[f \<leftarrow> ?ins. name f \<notin> set ?ks \<and> name f \<notin> set skip]"
  let ?cols = "join '','' (map ?q ?ins)"
  let ?vals = "join '','' (map (\<lambda>obj. ''('' @ join '','' (map (\<lambda>f. ''%s::'' @ db_type f ?con) ?ins)
                                            @ '')'') objects)"
  let ?sets = "join '','' (map (\<lambda>f. ?q f @ ''=nv.'' @ ?q f) ?upd)"
  let ?on_m = "join '' AND '' (map (\<lambda>f. ''m.'' @ ?q f @ ''=nv.'' @ ?q f) ?kfs)"
  let ?on_up = "join '' AND '' (map (\<lambda>f. ''up.'' @ ?q f @ ''=new_values.'' @ ?q f) ?kfs)"
  have upd: "update_fields model ?ks skip = ?upd"
    by (rule update_fields_filter [OF assms(2)])
  have kfs: "key_fields model ?ks = ?kfs"
    by (rule key_fields_filter [OF assms(2)])
  from statement_text [OF assms(1)]
  have sql: "sql = rendered (db_table (meta model)) ?cols ?vals ?sets ?on_m ?on_up"
    unfolding upd kfs by simp
  have full: "sql =
            ''\<newline>        WITH new_values ('' @ ?cols @
            '') AS (\<newline>          VALUES\<newline>            '' @ ?vals @
            ''\<newline>        ),\<newline>        upsert AS\<newline>        (\<newline>            UPDATE '' @ db_table (meta model) @
            '' m\<newline>                SET '' @ ?sets @
            ''\<newline>            FROM new_values nv\<newline>            WHERE '' @ ?on_m @
            ''\<newline>            RETURNING m.*\<newline>        )\<newline>        INSERT INTO '' @ db_table (meta model) @
            '' ('' @ ?cols @
            '')\<newline>        SELECT '' @ ?cols @
            ''\<newline>        FROM new_values\<newline>        WHERE NOT EXISTS (SELECT 1\<newline>                          FROM upsert up\<newline>                          WHERE '' @ ?on_up @
            '')\<newline>    ''"
    unfolding sql rendered_def by simp
  have skipped: "\<forall>f \<in> set ?ins. name f \<in> set skip \<longrightarrow> f \<notin> set ?upd \<and> ?q f \<in> set (map ?q ?ins)"
    by simp
  have absent: "\<forall>f \<in> set ?ins. name f \<in> set skip \<longrightarrow> ?q f \<notin> set (map ?q ?upd)"
    if d: "distinct (map ?q (meta_fields (meta model)))"
  proof (intro ballI impI notI)
    fix f assume f: "f \<in> set ?ins" "name f \<in> set skip" and "?q f \<in> set (map ?q ?upd)"
    then obtain g where g: "g \<in> set ?upd" "?q g = ?q f" by auto
    from f(1) g(1) have "f \<in> set (meta_fields (meta model))" "g \<in> set (meta_fields (meta model))"
      by (simp_all add: model_fields_def)
    with d g(2) have "g = f" by (metis quoted_unique)
    with g(1) f(2) show False by simp
  qed
  have disj: "set ?kfs \<inter> set ?upd = {}"
    by auto
  from upd kfs full skipped absent disj show ?thesis
    unfolding Let_def by blast
qed

theorem update_fields_partition_witness:
  "\<exists>sql.
     insert_or_update_many (\<lambda>u. pg) stamped_widgets [widget_A] (Some [''sku''])
         [''created_at''] ''default''
       = (Inr (), [Cursor ''default'',
            Execute ''default'' sql [VStr ''A'', VInt 5, VStr ''2013-05-01 12:00:00''],
            CommitUnlessManaged None])
     \<and> sql =
        ''\<newline>'' @
        ''        WITH new_values ('' @ dq @ ''sku'' @ dq @ '','' @ dq @ ''qty'' @ dq @ '','' @ dq @ ''created_at'' @ dq @ '') AS (\<newline>'' @
        ''          VALUES\<newline>'' @
        ''            (%s::varchar(32),%s::integer,%s::timestamp)\<newline>'' @
        ''        ),\<newline>'' @
        ''        upsert AS\<newline>'' @
        ''        (\<newline>'' @
        ''            UPDATE widgets m\<newline>'' @
        ''                SET '' @ dq @ ''qty'' @ dq @ ''=nv.'' @ dq @ ''qty'' @ dq @ ''\<newline>'' @
        ''            FROM new_values nv\<newline>'' @
        ''            WHERE m.'' @ dq @ ''sku'' @ dq @ ''=nv.'' @ dq @ ''sku'' @ dq @ ''\<newline>'' @
        ''            RETURNING m.*\<newline>'' @
        ''        )\<newline>'' @
        ''        INSERT INTO widgets ('' @ dq @ ''sku'' @ dq @ '','' @ dq @ ''qty'' @ dq @ '','' @ dq @ ''created_at'' @ dq @ '')\<newline>'' @
        ''        SELECT '' @ dq @ ''sku'' @ dq @ '','' @ dq @ ''qty'' @ dq @ '','' @ dq @ ''created_at'' @ dq @ ''\<newline>'' @
        ''        FROM new_values\<newline>'' @
        ''        WHERE NOT EXISTS (SELECT 1\<newline>'' @
        ''                          FROM upsert up\<newline>'' @
        ''                          WHERE up.'' @ dq @ ''sku'' @ dq @ ''=new_values.'' @ dq @ ''sku'' @ dq @ '')\<newline>'' @
        ''    ''
     \<and> update_fields stamped_widgets [''sku''] [''created_at''] = [qty_field]
     \<and> dq @ ''created_at'' @ dq
          \<in> set [dq @ ''sku'' @ dq, dq @ ''qty'' @ dq, dq @ ''created_at'' @ dq]
     \<and> dq @ ''created_at'' @ dq \<notin> set [dq @ ''qty'' @ dq]"
proof -
  have mf: "model_fields stamped_widgets = [sku_field, qty_field, created_field]"
    by (simp add: model_fields_def stamped_widgets_def id_field_def sku_field_def qty_field_def
          created_field_def)
  have ks: "keys_or_pk (Some [''sku'']) stamped_widgets = [''sku'']"
    by (simp add: keys_or_pk_def)
  have kf: "key_fields stamped_widgets [''sku''] = [sku_field]"
    by (simp add: key_fields_def all_field_names_def mf)
       (simp add: stamped_widgets_def id_field_def sku_field_def qty_field_def created_field_def)
  have d: "distinct (map name (meta_fields (meta stamped_widgets)))"
    by (simp add: stamped_widgets_def id_field_def sku_field_def qty_field_def created_field_def)
  have ps: "parameters pg stamped_widgets [widget_A]
              = [VStr ''A'', VInt 5, VStr ''2013-05-01 12:00:00'']"
    by (simp add: parameters_def prep_values_def mf sku_field_def qty_field_def
          created_field_def widget_A_def)
  have k: "key_fields stamped_widgets (keys_or_pk (Some [''sku'']) stamped_widgets) \<noteq> []"
    unfolding ks kf by simp
  from iom_calls [OF _ k, of "[widget_A]" "\<lambda>u. pg" "[''created_at'']" "''default''"]
  obtain sql where r:
    "insert_or_update_many (\<lambda>u. pg) stamped_widgets [widget_A] (Some [''sku''])
         [''created_at''] ''default''
       = (Inr (), [Cursor ''default'',
            Execute ''default'' sql [VStr ''A'', VInt 5, VStr ''2013-05-01 12:00:00''],
            CommitUnlessManaged None])"
    unfolding ps by auto
  then have "Execute ''default'' sql [VStr ''A'', VInt 5, VStr ''2013-05-01 12:00:00'']
      \<in> set (snd (insert_or_update_many (\<lambda>u. pg) stamped_widgets [widget_A]
                     (Some [''sku'']) [''created_at''] ''default''))"
    by simp
  note t = update_fields_partition [OF this d, unfolded Let_def ks mf]
  have upd: "[f \<leftarrow> [sku_field, qty_field, created_field].
               name f \<notin> set [''sku''] \<and> name f \<notin> set [''created_at'']] = [qty_field]"
    "[f \<leftarrow> [sku_field, qty_field, created_field]. name f \<in> set [''sku'']] = [sku_field]"
    by (simp_all add: sku_field_def qty_field_def created_field_def)
  from t [THEN conjunct1] have u: "update_fields stamped_widgets [''sku''] [''created_at'']
      = [qty_field]"
    unfolding upd .
  from t [THEN conjunct2, THEN conjunct2, THEN conjunct1]
  have sql: "sql =
        ''\<newline>'' @
        ''        WITH new_values ('' @ dq @ ''sku'' @ dq @ '','' @ dq @ ''qty'' @ dq @ '','' @ dq @ ''created_at'' @ dq @ '') AS (\<newline>'' @
        ''          VALUES\<newline>'' @
        ''            (%s::varchar(32),%s::integer,%s::timestamp)\<newline>'' @
        ''        ),\<newline>'' @
        ''        upsert AS\<newline>'' @
        ''        (\<newline>'' @
        ''            UPDATE widgets m\<newline>'' @
        ''                SET '' @ dq @ ''qty'' @ dq @ ''=nv.'' @ dq @ ''qty'' @ dq @ ''\<newline>'' @
        ''            FROM new_values nv\<newline>'' @
        ''            WHERE m.'' @ dq @ ''sku'' @ dq @ ''=nv.'' @ dq @ ''sku'' @ dq @ ''\<newline>'' @
        ''            RETURNING m.*\<newline>'' @
        ''        )\<newline>'' @
        ''        INSERT INTO widgets ('' @ dq @ ''sku'' @ dq @ '','' @ dq @ ''qty'' @ dq @ '','' @ dq @ ''created_at'' @ dq @ '')\<newline>'' @
        ''        SELECT '' @ dq @ ''sku'' @ dq @ '','' @ dq @ ''qty'' @ dq @ '','' @ dq @ ''created_at'' @ dq @ ''\<newline>'' @
        ''        FROM new_values\<newline>'' @
        ''        WHERE NOT EXISTS (SELECT 1\<newline>'' @
        ''                          FROM upsert up\<newline>'' @
        ''                          WHERE up.'' @ dq @ ''sku'' @ dq @ ''=new_values.'' @ dq @ ''sku'' @ dq @ '')\<newline>'' @
        ''    ''"
    unfolding upd
    by (simp add: stamped_widgets_def sku_field_def qty_field_def created_field_def pg_def)
  have dd: "distinct (map (\<lambda>f. quote_name (ops pg) (column f))
                       (meta_fields (meta stamped_widgets)))"
    by (simp add: stamped_widgets_def id_field_def sku_field_def qty_field_def
          created_field_def pg_def dq_def)
  from t [THEN conjunct2, THEN conjunct2, THEN conjunct2, THEN conjunct1]
  have a: "dq @ ''created_at'' @ dq
          \<in> set [dq @ ''sku'' @ dq, dq @ ''qty'' @ dq, dq @ ''created_at'' @ dq]"
    by simp
  from t [THEN conjunct2, THEN conjunct2, THEN conjunct2, THEN conjunct2, THEN conjunct1] dd
  have b: "dq @ ''created_at'' @ dq \<notin> set [dq @ ''qty'' @ dq]"
    unfolding upd
    by (simp add: sku_field_def qty_field_def created_field_def pg_def)
  from r sql u a b show ?thesis
    by (intro exI [of _ sql]) (simp only: simp_thms)
qed

text \<open>
  Claim C8. For a model whose field names are distinct, in every call that reaches
  \<^verbatim>\<open>cursor.execute\<close> the statement is the text below, in which the three column
  lists and every placeholder tuple range over the fields that are not an
  \<^verbatim>\<open>AutoField\<close>, the \<^verbatim>\<open>SET\<close> clause over those of them that are neither keys nor
  skipped, and the two key comparisons over those of them that are keys; every parameter
  row ranges over the fields that are not an \<^verbatim>\<open>AutoField\<close>. An \<^verbatim>\<open>AutoField\<close> of
  the model is in none of these lists, and when the quoted columns of the model are
  distinct its quoted column is in none of them either.
\<close>

theorem auto_fields_excluded:
  assumes "Execute u sql ps
             \<in> set (snd (insert_or_update_many connections model objects keys skip using))"
    and "distinct (map name (meta_fields (meta model)))"
  shows "let con = connections using; ks = keys_or_pk keys model;
             q = (\<lambda>f. quote_name (ops con) (column f));
             tf = [f \<leftarrow> meta_fields (meta model). \<not> is_AutoField f];
             kf = [f \<leftarrow> tf. name f \<in> set ks];
             uf = [f \<leftarrow> tf. name f \<notin> set ks \<and> name f \<notin> set skip];
             cols = join '','' (map q tf);
             vals = join '','' (map (\<lambda>obj. ''('' @ join '','' (map (\<lambda>f. ''%s::'' @ db_type f con) tf)
                                            @ '')'') objects);
             sets = join '','' (map (\<lambda>f. q f @ ''=nv.'' @ q f) uf);
             on_m = join '' AND '' (map (\<lambda>f. ''m.'' @ q f @ ''=nv.'' @ q f) kf);
             on_up = join '' AND '' (map (\<lambda>f. ''up.'' @ q f @ ''=new_values.'' @ q f) kf)
         in sql =
            ''\<newline>        WITH new_values ('' @ cols @
            '') AS (\<newline>          VALUES\<newline>            '' @ vals @
            ''\<newline>        ),\<newline>        upsert AS\<newline>        (\<newline>            UPDATE '' @ db_table (meta model) @
            '' m\<newline>                SET '' @ sets @
            ''\<newline>            FROM new_values nv\<newline>            WHERE '' @ on_m @
            ''\<newline>            RETURNING m.*\<newline>        )\<newline>        INSERT INTO '' @ db_table (meta model) @
            '' ('' @ cols @
            '')\<newline>        SELECT '' @ cols @
            ''\<newline>        FROM new_values\<newline>        WHERE NOT EXISTS (SELECT 1\<newline>                          FROM upsert up\<newline>                          WHERE '' @ on_up @
            '')\<newline>    ''
          \<and> ps = concat (map (\<lambda>obj. map (\<lambda>f. get_db_prep_save f (pre_save f obj True) con) tf)
                           objects)
          \<and> (\<forall>f \<in> set (meta_fields (meta model)). is_AutoField f
                \<longrightarrow> f \<notin> set tf \<and> f \<notin> set kf \<and> f \<notin> set uf)
          \<and> (distinct (map q (meta_fields (meta model)))
                \<longrightarrow> (\<forall>f \<in> set (meta_fields (meta model)). is_AutoField f
                      \<longrightarrow> q f \<notin> set (map q tf) \<and> q f \<notin> set (map q kf)
                          \<and> q f \<notin> set (map q uf)))"
proof -
  let ?con = "connections using"
  let ?ks = "keys_or_pk keys model"
  let ?q = "\<lambda>f. quote_name (ops ?con) (column f)"
  let ?tf = "[f \<leftarrow> meta_fields (meta model). \<not> is_AutoField f]"
  let ?kf = "[f \<leftarrow> ?tf. name f \<in> set ?ks]"
  let ?uf = "[f \<leftarrow> ?tf. name f \<notin> set ?ks \<and> name f \<notin> set skip]"
  let ?cols = "join '','' (map ?q ?tf)"
  let ?vals = "join '','' (map (\<lambda>obj. ''('' @ join '','' (map (\<lambda>f. ''%s::'' @ db_type f ?con) ?tf)
                                            @ '')'') objects)"
  let ?sets = "join '','' (map (\<lambda>f. ?q f @ ''=nv.'' @ ?q f) ?uf)"
  let ?on_m = "join '' AND '' (map (\<lambda>f. ''m.'' @ ?q f @ ''=nv.'' @ ?q f) ?kf)"
  let ?on_up = "join '' AND '' (map (\<lambda>f. ''up.'' @ ?q f @ ''=new_values.'' @ ?q f) ?kf)"
  have tf: "model_fields model = ?tf"
    by (simp add: model_fields_def)
  have kf: "key_fields model ?ks = ?kf"
    unfolding key_fields_filter [OF assms(2)] tf ..
  have uf: "update_fields model ?ks skip = ?uf"
    unfolding update_fields_filter [OF assms(2)] tf ..
  note st = statement_text [OF assms(1), unfolded kf uf tf]
  from st have sql: "sql = rendered (db_table (meta model)) ?cols ?vals ?sets ?on_m ?on_up"
    by simp
  from st have ps: "ps = concat (map (\<lambda>obj. map (\<lambda>f. get_db_prep_save f (pre_save f obj True) ?con) ?tf)
                           objects)"
    by simp
  have full: "sql =
            ''\<newline>        WITH new_values ('' @ ?cols @
            '') AS (\<newline>          VALUES\<newline>            '' @ ?vals @
            ''\<newline>        ),\<newline>        upsert AS\<newline>        (\<newline>            UPDATE '' @ db_table (meta model) @
            '' m\<newline>                SET '' @ ?sets @
            ''\<newline>            FROM new_values nv\<newline>            WHERE '' @ ?on_m @
            ''\<newline>            RETURNING m.*\<newline>        )\<newline>        INSERT INTO '' @ db_table (meta model) @
            '' ('' @ ?cols @
            '')\<newline>        SELECT '' @ ?cols @
            ''\<newline>        FROM new_values\<newline>        WHERE NOT EXISTS (SELECT 1\<newline>                          FROM upsert up\<newline>                          WHERE '' @ ?on_up @
            '')\<newline>    ''"
    unfolding sql rendered_def by simp
  have out: "\<forall>f \<in> set (meta_fields (meta model)). is_AutoField f
                \<longrightarrow> f \<notin> set ?tf \<and> f \<notin> set ?kf \<and> f \<notin> set ?uf"
    by simp
  have absent: "\<forall>f \<in> set (meta_fields (meta model)). is_AutoField f
                      \<longrightarrow> ?q f \<notin> set (map ?q ?tf) \<and> ?q f \<notin> set (map ?q ?kf)
                          \<and> ?q f \<notin> set (map ?q ?uf)"
    if d: "distinct (map ?q (meta_fields (meta model)))"
  proof (intro ballI impI)
    fix f assume f: "f \<in> set (meta_fields (meta model))" "is_AutoField f"
    have "?q f \<notin> set (map ?q ?tf)"
    proof
      assume "?q f \<in> set (map ?q ?tf)"
      then obtain g where g: "g \<in> set ?tf" "?q g = ?q f" by auto
      then have "g \<in> set (meta_fields (meta model))" by simp
      with d f(1) g(2) have "g = f" by (metis quoted_unique)
      with g(1) f(2) show False by simp
    qed
    moreover have "set (map ?q ?kf) \<subseteq> set (map ?q ?tf)" "set (map ?q ?uf) \<subseteq> set (map ?q ?tf)"
      by auto
    ultimately show "?q f \<notin> set (map ?q ?tf) \<and> ?q f \<notin> set (map ?q ?kf)
                          \<and> ?q f \<notin> set (map ?q ?uf)"
      by blast
  qed
  from full ps out absent show ?thesis
    unfolding Let_def by blast
qed

theorem auto_fields_excluded_witness:
  "\<exists>sql.
     insert_or_update_many (\<lambda>u. pg) widgets [widget_A] (Some [''id'', ''sku'']) []
         ''default''
       = (Inr (), [Cursor ''default'', Execute ''default'' sql [VStr ''A'', VInt 5],
            CommitUnlessManaged None])
     \<and> sql =
        ''\<newline>'' @
        ''        WITH new_values ('' @ dq @ ''sku'' @ dq @ '','' @ dq @ ''qty'' @ dq @ '') AS (\<newline>'' @
        ''          VALUES\<newline>'' @
        ''            (%s::varchar(32),%s::integer)\<newline>'' @
        ''        ),\<newline>'' @
        ''        upsert AS\<newline>'' @
        ''        (\<newline>'' @
        ''            UPDATE widgets m\<newline>'' @
        ''                SET '' @ dq @ ''qty'' @ dq @ ''=nv.'' @ dq @ ''qty'' @ dq @ ''\<newline>'' @
        ''            FROM new_values nv\<newline>'' @
        ''            WHERE m.'' @ dq @ ''sku'' @ dq @ ''=nv.'' @ dq @ ''sku'' @ dq @ ''\<newline>'' @
        ''            RETURNING m.*\<newline>'' @
        ''        )\<newline>'' @
        ''        INSERT INTO widgets ('' @ dq @ ''sku'' @ dq @ '','' @ dq @ ''qty'' @ dq @ '')\<newline>'' @
        ''        SELECT '' @ dq @ ''sku'' @ dq @ '','' @ dq @ ''qty'' @ dq @ ''\<newline>'' @
        ''        FROM new_values\<newline>'' @
        ''        WHERE NOT EXISTS (SELECT 1\<newline>'' @
        ''                          FROM upsert up\<newline>'' @
        ''                          WHERE up.'' @ dq @ ''sku'' @ dq @ ''=new_values.'' @ dq @ ''sku'' @ dq @ '')\<newline>'' @
        ''    ''
     \<and> id_field \<notin> set [sku_field, qty_field]
     \<and> dq @ ''id'' @ dq \<notin> set [dq @ ''sku'' @ dq, dq @ ''qty'' @ dq]"
proof -
  have mf: "model_fields widgets = [sku_field, qty_field]"
    by (simp add: model_fields_def widgets_def id_field_def sku_field_def qty_field_def)
  have tf: "[f \<leftarrow> meta_fields (meta widgets). \<not> is_AutoField f] = [sku_field, qty_field]"
    by (simp add: widgets_def id_field_def sku_field_def qty_field_def)
  have ks: "keys_or_pk (Some [''id'', ''sku'']) widgets = [''id'', ''sku'']"
    by (simp add: keys_or_pk_def)
  have kf: "key_fields widgets [''id'', ''sku''] = [sku_field]"
    by (simp add: key_fields_def all_field_names_def mf)
       (simp add: widgets_def id_field_def sku_field_def qty_field_def)
  have d: "distinct (map name (meta_fields (meta widgets)))"
    by (simp add: widgets_def id_field_def sku_field_def qty_field_def)
  have ps: "parameters pg widgets [widget_A] = [VStr ''A'', VInt 5]"
    by (simp add: parameters_def prep_values_def mf sku_field_def qty_field_def widget_A_def)
  have k: "key_fields widgets (keys_or_pk (Some [''id'', ''sku'']) widgets) \<noteq> []"
    unfolding ks kf by simp
  from iom_calls [OF _ k, of "[widget_A]" "\<lambda>u. pg" "[]" "''default''"]
  obtain sql where r:
    "insert_or_update_many (\<lambda>u. pg) widgets [widget_A] (Some [''id'', ''sku'']) []
         ''default''
       = (Inr (), [Cursor ''default'', Execute ''default'' sql [VStr ''A'', VInt 5],
            CommitUnlessManaged None])"
    unfolding ps by auto
  then have "Execute ''default'' sql [VStr ''A'', VInt 5]
      \<in> set (snd (insert_or_update_many (\<lambda>u. pg) widgets [widget_A]
                     (Some [''id'', ''sku'']) [] ''default''))"
    by simp
  note t = auto_fields_excluded [OF this d, unfolded Let_def ks tf]
  have sel: "[f \<leftarrow> [sku_field, qty_field]. name f \<in> set [''id'', ''sku'']] = [sku_field]"
    "[f \<leftarrow> [sku_field, qty_field]. name f \<notin> set [''id'', ''sku''] \<and> name f \<notin> set []]
       = [qty_field]"
    by (simp_all add: sku_field_def qty_field_def)
  from t [THEN conjunct1]
  have sql: "sql =
        ''\<newline>'' @
        ''        WITH new_values ('' @ dq @ ''sku'' @ dq @ '','' @ dq @ ''qty'' @ dq @ '') AS (\<newline>'' @
        ''          VALUES\<newline>'' @
        ''            (%s::varchar(32),%s::integer)\<newline>'' @
        ''        ),\<newline>'' @
        ''        upsert AS\<newline>'' @
        ''        (\<newline>'' @
        ''            UPDATE widgets m\<newline>'' @
        ''                SET '' @ dq @ ''qty'' @ dq @ ''=nv.'' @ dq @ ''qty'' @ dq @ ''\<newline>'' @
        ''            FROM new_values nv\<newline>'' @
        ''            WHERE m.'' @ dq @ ''sku'' @ dq @ ''=nv.'' @ dq @ ''sku'' @ dq @ ''\<newline>'' @
        ''            RETURNING m.*\<newline>'' @
        ''        )\<newline>'' @
        ''        INSERT INTO widgets ('' @ dq @ ''sku'' @ dq @ '','' @ dq @ ''qty'' @ dq @ '')\<newline>'' @
        ''        SELECT '' @ dq @ ''sku'' @ dq @ '','' @ dq @ ''qty'' @ dq @ ''\<newline>'' @
        ''        FROM new_values\<newline>'' @
        ''        WHERE NOT EXISTS (SELECT 1\<newline>'' @
        ''                          FROM upsert up\<newline>'' @
        ''                          WHERE up.'' @ dq @ ''sku'' @ dq @ ''=new_values.'' @ dq @ ''sku'' @ dq @ '')\<newline>'' @
        ''    ''"
    unfolding sel
    by (simp add: widgets_def sku_field_def qty_field_def pg_def)
  have i: "id_field \<in> set (meta_fields (meta widgets))" "is_AutoField id_field"
    by (simp_all add: widgets_def id_field_def)
  from t [THEN conjunct2, THEN conjunct2, THEN conjunct1] i
  have a: "id_field \<notin> set [sku_field, qty_field]"
    by blast
  have dd: "distinct (map (\<lambda>f. quote_name (ops pg) (column f)) (meta_fields (meta widgets)))"
    by (simp add: widgets_def id_field_def sku_field_def qty_field_def pg_def dq_def)
  from t [THEN conjunct2, THEN conjunct2, THEN conjunct2] dd i
  have "quote_name (ops pg) (column id_field)
          \<notin> set (map (\<lambda>f. quote_name (ops pg) (column f)) [sku_field, qty_field])"
    by blast
  then have b: "dq @ ''id'' @ dq \<notin> set [dq @ ''sku'' @ dq, dq @ ''qty'' @ dq]"
    by (simp add: id_field_def sku_field_def qty_field_def pg_def)
  from r sql a b show ?thesis
    by (intro exI [of _ sql]) (simp only: simp_thms)
qed

subsection \<open>The calls on the database layer\<close>

text \<open>
  Claim C9. A call on the database alias \<^verbatim>\<open>"replica"\<close>, with one object and the key
  \<^verbatim>\<open>sku\<close>: the function opens a cursor on \<^verbatim>\<open>connections["replica"]\<close> and executes one
  statement there; the call of \<^verbatim>\<open>transaction.commit_unless_managed\<close> that follows is
  given no alias, so it does not name the connection the statement ran on. The function
  makes no other call.
\<close>

theorem commit_names_no_alias:
  "\<exists>sql. insert_or_update_many (\<lambda>u. pg) widgets [widget_A] (Some [''sku'']) [] ''replica''
     = (Inr (), [Cursor ''replica'', Execute ''replica'' sql [VStr ''A'', VInt 5],
          CommitUnlessManaged None])"
proof -
  have k: "key_fields widgets (keys_or_pk (Some [''sku'']) widgets) \<noteq> []"
    by (simp add: key_fields_def keys_or_pk_def all_field_names_def model_fields_def widget_defs)
  from iom_calls [OF _ k, of "[widget_A]" "\<lambda>u. pg" "[]" "''replica''"]
  show ?thesis
    by (simp add: model_fields_def parameters_def prep_values_def widget_defs)
qed

end
